theory Spec2Isabelle
  imports Main "HOL-Library.Sublist" "HOL-Library.Word"
begin

section \<open>The caller resolver of gdey/caller\<close>

text \<open>
  The Go package inspects the call stack to find the first caller that is not in one of
  its ignore lists. Go's \<open>int\<close> and \<open>uint\<close> are taken as 64 bits wide; both are
  modelled as \<open>64 word\<close>, read with \<open>sint\<close> where the source uses an \<open>int\<close> and
  with the unsigned order of words where it uses a \<open>uint\<close>. A panic is a value of
  type \<open>error\<close>.
\<close>

subsection \<open>Library functions the source calls\<close>

text \<open>
  \<open>strings.Index(s, substr)\<close>: the index of the first instance of \<open>substr\<close> in
  \<open>s\<close>, or \<open>-1\<close>. \<open>strings.LastIndex(s, substr)\<close>: the index of the last instance,
  or \<open>-1\<close>.
\<close>

fun Index :: "string \<Rightarrow> string \<Rightarrow> int" where
  "Index [] substr = (if substr = [] then 0 else -1)"
| "Index (c # s) substr =
     (if prefix substr (c # s) then 0
      else (let i = Index s substr in if i = -1 then -1 else i + 1))"

fun LastIndex :: "string \<Rightarrow> string \<Rightarrow> int" where
  "LastIndex [] substr = (if substr = [] then 0 else -1)"
| "LastIndex (c # s) substr =
     (let i = LastIndex s substr
      in if i \<noteq> -1 then i + 1 else if prefix substr (c # s) then 0 else -1)"

subsection \<open>PackageName\<close>

definition PackageName :: "string \<Rightarrow> string" where
  "PackageName fullFuncName =
     (let slashIndex = LastIndex fullFuncName ''/'';
          slashIndex = (if slashIndex = -1 then 0 else slashIndex);
          dotIndex = Index (drop (nat slashIndex) fullFuncName) ''.''
      in if dotIndex = -1 then ''''
         else take (nat (slashIndex + dotIndex)) fullFuncName)"

subsection \<open>Frames and the runtime's view of the stack\<close>

text \<open>
  \<open>runtime.Frame\<close>, with the fields the package reads. \<open>zero_Frame\<close> is Go's
  \<open>Frame{}\<close>, which \<open>Frames.Next\<close> returns when no frame is left.
\<close>

record Frame =
  Function :: string
  File :: string
  Line :: int

definition zero_Frame :: Frame where
  "zero_Frame = \<lparr>Function = '''', File = '''', Line = 0\<rparr>"

text \<open>
  The call stack at the moment \<open>getFrames\<close> calls \<open>runtime.Callers(0, pc)\<close>: one
  entry per program counter, innermost first (the entry of \<open>runtime.Callers\<close> itself,
  then \<open>getFrames\<close>, then the method that called it, then the user's functions). Each
  entry is the list of frames \<open>runtime.CallersFrames\<close> expands that program counter
  into: one frame as a rule, several for inlined calls, none where the runtime has no
  function information.
\<close>

type_synonym stack = "Frame list list"

datatype error =
    NoCallers
  | NotEnoughFrames
  | NoPackageName
  | NoFunctionName
  | MakesliceLenOutOfRange
  | SliceBoundsOutOfRange

text \<open>
  The first four are the panics the source raises itself: \<open>"no callers"\<close>,
  \<open>"not enough frames"\<close>, \<open>"Was not able to get the package name"\<close> and
  \<open>"Was not able to get the function name ran out of frames"\<close>. The last two are
  raised by the Go runtime, in \<open>make\<close> and in a slice expression.

  \<open>make([]uintptr, len)\<close> panics when \<open>len\<close> is negative or when the \<open>8 * len\<close>
  bytes exceed the runtime's \<open>maxAlloc\<close> (\<open>2 ^ 48\<close> on 64-bit Linux). Running out of
  memory below that limit is not modelled.
\<close>

definition maxAlloc :: int where
  "maxAlloc = 2 ^ 48"

definition make_panics :: "int \<Rightarrow> bool" where
  "make_panics len \<longleftrightarrow> len < 0 \<or> maxAlloc < 8 * len"

text \<open>
  \<open>runtime.Callers(0, pc)\<close> fills \<open>pc\<close> with the program counters of the stack, as
  many as fit, and returns how many it wrote.
\<close>

definition Callers :: "stack \<Rightarrow> nat \<Rightarrow> nat" where
  "Callers stk len_pc = min (length stk) len_pc"

text \<open>
  \<open>runtime.CallersFrames(pc)\<close> is an iterator over the frames of the given program
  counters; its state is the list of frames still to come. \<open>Next\<close> returns the next
  frame, whether a further call will return a valid frame, and the iterator's new state.
\<close>

definition CallersFrames :: "Frame list list \<Rightarrow> Frame list" where
  "CallersFrames pcs = concat pcs"

definition Next :: "Frame list \<Rightarrow> Frame \<times> bool \<times> Frame list" where
  "Next frames =
     (case frames of
        [] \<Rightarrow> (zero_Frame, False, [])
      | frame # rest \<Rightarrow> (frame, rest \<noteq> [], rest))"

subsection \<open>getFrames\<close>

definition getFrames :: "stack \<Rightarrow> 64 word \<Rightarrow> 64 word \<Rightarrow> error + Frame list" where
  "getFrames stk num skip =
     (let len_pc = sint (num + skip) in
      if make_panics len_pc then Inl MakesliceLenOutOfRange
      else
        let n = Callers stk (nat len_pc) in
        if n = 0 then Inl NoCallers
        else if sint skip \<ge> int n - 1 then Inl NotEnoughFrames
        else if sint skip < 0 then Inl SliceBoundsOutOfRange
        else Inr (CallersFrames (drop (nat (sint skip)) (take n stk))))"

subsection \<open>The resolver\<close>

text \<open>
  \<open>ACaller\<close>, and the package variable \<open>ourPackageName\<close>, which is computed once
  when the package is initialised and is a parameter \<open>our\<close> of every operation here.
\<close>

record ACaller =
  numFramesToGet :: "64 word"
  ignorePackages :: "string list"
  ignoreFunctions :: "string list"

definition DefaultNumberOfFramesToGet :: "64 word" where
  "DefaultNumberOfFramesToGet = 15"

text \<open>The loop of \<open>IgnorePackage\<close>; it returns \<open>packageName\<close> as the loop leaves it.\<close>

function IgnorePackage_loop :: "string \<Rightarrow> Frame list \<Rightarrow> string" where
  "IgnorePackage_loop our frames =
     (case Next frames of (frame, more', rest) \<Rightarrow>
        let packageName = PackageName (Function frame) in
        if packageName \<noteq> '''' \<or> \<not> more' then
          (if packageName = our \<and> more' then IgnorePackage_loop our rest
           else packageName)
        else IgnorePackage_loop our rest)"
  by pat_completeness auto
termination
  by (relation "measure (\<lambda>(our, frames). length frames)")
     (auto simp: Next_def split: list.splits)

definition IgnorePackage :: "string \<Rightarrow> stack \<Rightarrow> ACaller \<Rightarrow> error + ACaller" where
  "IgnorePackage our stk c =
     (case getFrames stk 5 3 of
        Inl e \<Rightarrow> Inl e
      | Inr frames \<Rightarrow>
          let packageName = IgnorePackage_loop our frames in
          if packageName = '''' then Inl NoPackageName
          else if packageName = our \<or> packageName = ''runtime'' then Inr c
          else Inr (c\<lparr>ignorePackages := ignorePackages c @ [packageName]\<rparr>))"

text \<open>
  The loop of \<open>Helper\<close>, which \<open>IgnoreFunction\<close> repeats word for word. It leaves by
  \<open>break\<close> with the frame and its package (\<open>Some\<close>), by \<open>return\<close> (\<open>None\<close>), or by
  a panic.
\<close>

function Helper_loop :: "string \<Rightarrow> Frame list \<Rightarrow> error + (Frame \<times> string) option" where
  "Helper_loop our frames =
     (case Next frames of (frame, more', rest) \<Rightarrow>
        if Function frame = '''' then
          (if \<not> more' then Inl NoFunctionName else Helper_loop our rest)
        else
          let packageName = PackageName (Function frame) in
          if packageName \<noteq> our \<and> packageName \<noteq> ''runtime''
          then Inr (Some (frame, packageName))
          else if \<not> more' then Inr None
          else Helper_loop our rest)"
  by pat_completeness auto
termination
  by (relation "measure (\<lambda>(our, frames). length frames)")
     (auto simp: Next_def split: list.splits)

definition Helper :: "string \<Rightarrow> stack \<Rightarrow> ACaller \<Rightarrow> error + ACaller" where
  "Helper our stk c =
     (case getFrames stk 5 3 of
        Inl e \<Rightarrow> Inl e
      | Inr frames \<Rightarrow>
          (case Helper_loop our frames of
             Inl e \<Rightarrow> Inl e
           | Inr None \<Rightarrow> Inr c
           | Inr (Some (frame, packageName)) \<Rightarrow>
               if Function frame \<in> set (ignoreFunctions c) then Inr c
               else if packageName = our \<or> packageName = ''runtime'' then Inr c
               else if packageName \<in> set (ignorePackages c) then Inr c
               else Inr (c\<lparr>ignoreFunctions := ignoreFunctions c @ [Function frame]\<rparr>)))"

definition IgnoreFunction :: "string \<Rightarrow> stack \<Rightarrow> ACaller \<Rightarrow> string \<Rightarrow> error + ACaller" where
  "IgnoreFunction our stk c name =
     (case getFrames stk 5 3 of
        Inl e \<Rightarrow> Inl e
      | Inr frames \<Rightarrow>
          (case Helper_loop our frames of
             Inl e \<Rightarrow> Inl e
           | Inr None \<Rightarrow> Inr c
           | Inr (Some (frame, packageName)) \<Rightarrow>
               let fullFunctionName = packageName @ ''.'' @ name in
               if fullFunctionName \<in> set (ignoreFunctions c) then Inr c
               else if packageName = our \<or> packageName = ''runtime'' then Inr c
               else if packageName \<in> set (ignorePackages c) then Inr c
               else Inr (c\<lparr>ignoreFunctions := ignoreFunctions c @ [fullFunctionName]\<rparr>)))"

definition skipFrame :: "string \<Rightarrow> ACaller \<Rightarrow> Frame \<Rightarrow> bool" where
  "skipFrame our c frame =
     (let functionName = Function frame;
          packageName = PackageName functionName
      in if packageName = ''runtime'' \<or> packageName = our then True
         else if packageName \<in> set (ignorePackages c) then True
         else if functionName \<in> set (ignoreFunctions c) then True
         else False)"

text \<open>
  \<open>size\<close> is a \<open>uint\<close> and is compared as one; \<open>int(size)\<close> keeps the 64 bits.
\<close>

definition SetNumberOfFramesToGet :: "ACaller \<Rightarrow> 64 word \<Rightarrow> ACaller" where
  "SetNumberOfFramesToGet c size' =
     (if size' > DefaultNumberOfFramesToGet then c\<lparr>numFramesToGet := size'\<rparr> else c)"

definition NumberOfFramesToGet :: "ACaller \<Rightarrow> 64 word" where
  "NumberOfFramesToGet c =
     (if numFramesToGet c \<noteq> 0 then numFramesToGet c else DefaultNumberOfFramesToGet)"

function Caller_loop :: "string \<Rightarrow> ACaller \<Rightarrow> Frame list \<Rightarrow> Frame" where
  "Caller_loop our c frames =
     (case Next frames of (frame, more', rest) \<Rightarrow>
        if \<not> skipFrame our c frame \<or> \<not> more' then frame
        else Caller_loop our c rest)"
  by pat_completeness auto
termination
  by (relation "measure (\<lambda>(our, c, frames). length frames)")
     (auto simp: Next_def split: list.splits)

definition Caller :: "string \<Rightarrow> stack \<Rightarrow> ACaller \<Rightarrow> error + Frame" where
  "Caller our stk c =
     (case getFrames stk (NumberOfFramesToGet c) 4 of
        Inl e \<Rightarrow> Inl e
      | Inr frames \<Rightarrow> Inr (Caller_loop our c frames))"

subsection \<open>Method calls on a resolver variable\<close>

text \<open>
  A method call on a variable of type \<open>ACaller\<close>: its outcome and what the variable
  holds afterwards. \<open>Helper\<close>, \<open>IgnoreFunction\<close>, \<open>IgnorePackage\<close> and
  \<open>SetNumberOfFramesToGet\<close> have a pointer receiver and assign through it; \<open>Caller\<close>
  and \<open>NumberOfFramesToGet\<close> have a value receiver, so their body works on a copy and
  has no assignment to it either. A panic leaves the variable as it was: every panic of
  the source comes before the method's one assignment.
\<close>

datatype invocation =
    M_Caller
  | M_Helper
  | M_IgnoreFunction string
  | M_IgnorePackage
  | M_SetNumberOfFramesToGet "64 word"
  | M_NumberOfFramesToGet

datatype returned = R_Frame Frame | R_int "64 word" | R_nothing

fun call :: "string \<Rightarrow> stack \<Rightarrow> ACaller \<Rightarrow> invocation \<Rightarrow> (error + returned) \<times> ACaller" where
  "call our stk c M_Caller =
     (case Caller our stk c of Inl e \<Rightarrow> (Inl e, c) | Inr frame \<Rightarrow> (Inr (R_Frame frame), c))"
| "call our stk c M_Helper =
     (case Helper our stk c of Inl e \<Rightarrow> (Inl e, c) | Inr c' \<Rightarrow> (Inr R_nothing, c'))"
| "call our stk c (M_IgnoreFunction name) =
     (case IgnoreFunction our stk c name of
        Inl e \<Rightarrow> (Inl e, c)
      | Inr c' \<Rightarrow> (Inr R_nothing, c'))"
| "call our stk c M_IgnorePackage =
     (case IgnorePackage our stk c of Inl e \<Rightarrow> (Inl e, c) | Inr c' \<Rightarrow> (Inr R_nothing, c'))"
| "call our stk c (M_SetNumberOfFramesToGet size') =
     (Inr R_nothing, SetNumberOfFramesToGet c size')"
| "call our stk c M_NumberOfFramesToGet = (Inr (R_int (NumberOfFramesToGet c)), c)"

subsection \<open>The invariant of the ignore lists\<close>


subsection \<open>Concrete resolvers and stacks\<close>

text \<open>
  The zero value of \<open>ACaller\<close>, and the stacks of the package's own test
  \<open>from_simple_log\<close>: \<open>log.Caller\<close> calls \<open>Helper\<close> and then, through
  \<open>notInIgnore\<close>, \<open>Caller\<close>. \<open>caller_pkg\<close> is the value \<open>ourPackageName\<close> has
  in the package as published. Each stack has one frame per program counter. Its three
  innermost entries are those of \<open>runtime.Callers\<close>, of \<open>getFrames\<close> and of the
  method of \<open>ACaller\<close> that was called; every operation skips them, so the exact
  spelling of the method's name plays no part.
\<close>

definition zero_ACaller :: ACaller where
  "zero_ACaller = \<lparr>numFramesToGet = 0, ignorePackages = [], ignoreFunctions = []\<rparr>"

definition frame_named :: "string \<Rightarrow> Frame" where
  "frame_named fn = \<lparr>Function = fn, File = '''', Line = 0\<rparr>"

definition stack_of :: "string list \<Rightarrow> stack" where
  "stack_of names = map (\<lambda>fn. [frame_named fn]) names"

definition caller_pkg :: string where
  "caller_pkg = ''github.com/gdey/caller''"

definition log_Caller_stack :: stack where
  "log_Caller_stack = stack_of
     [''runtime.Callers'',
      ''github.com/gdey/caller.getFrames'',
      ''github.com/gdey/caller.ACaller.Caller'',
      ''github.com/gdey/caller/simple/log.MyCaller.notInIgnore'',
      ''github.com/gdey/caller/simple/log.Caller'',
      ''github.com/gdey/caller_test.TestCaller_Caller.func1.1'',
      ''testing.tRunner'',
      ''runtime.goexit'']"

definition log_Helper_stack :: stack where
  "log_Helper_stack = stack_of
     [''runtime.Callers'',
      ''github.com/gdey/caller.getFrames'',
      ''github.com/gdey/caller.ACaller.Helper'',
      ''github.com/gdey/caller/simple/log.Caller'',
      ''github.com/gdey/caller_test.TestCaller_Caller.func1.1'',
      ''testing.tRunner'',
      ''runtime.goexit'']"

definition log_ACaller :: ACaller where
  "log_ACaller = zero_ACaller\<lparr>ignoreFunctions := [''github.com/gdey/caller/simple/log.Caller'']\<rparr>"

text \<open>
  A goroutine started on a function that calls \<open>Caller\<close> at once; \<open>IgnorePackage\<close>
  called from \<open>log.Package\<close>, as in the test \<open>ignore package\<close>.
\<close>

definition goroutine_stack :: stack where
  "goroutine_stack = stack_of
     [''runtime.Callers'',
      ''github.com/gdey/caller.getFrames'',
      ''github.com/gdey/caller.ACaller.Caller'',
      ''main.worker'',
      ''runtime.goexit'']"

definition log_Package_stack :: stack where
  "log_Package_stack = stack_of
     [''runtime.Callers'',
      ''github.com/gdey/caller.getFrames'',
      ''github.com/gdey/caller.ACaller.IgnorePackage'',
      ''github.com/gdey/caller/simple/log.Package'',
      ''github.com/gdey/caller_test.TestCaller_Caller.func1.1'',
      ''testing.tRunner'',
      ''runtime.goexit'']"

section \<open>Properties\<close>

subsection \<open>Searching for one character\<close>

lemma Index_ge: "Index s substr \<noteq> -1 \<Longrightarrow> 0 \<le> Index s substr"
  by (induction s) (auto simp: Let_def split: if_splits)

lemma LastIndex_ge: "LastIndex s substr \<noteq> -1 \<Longrightarrow> 0 \<le> LastIndex s substr"
  by (induction s) (auto simp: Let_def split: if_splits)

lemma Index_char:
  "Index s [c] = (if c \<in> set s then int (length (takeWhile (\<lambda>x. x \<noteq> c) s)) else -1)"
  by (induction s) (auto simp: Let_def)

lemma LastIndex_absent: "c \<notin> set s \<Longrightarrow> LastIndex s [c] = -1"
  by (induction s) (auto simp: Let_def)

lemma LastIndex_last: "c \<notin> set b \<Longrightarrow> LastIndex (a @ c # b) [c] = int (length a)"
  by (induction a) (auto simp: Let_def LastIndex_absent)

subsection \<open>PackageName on the two shapes of a name\<close>

lemma PackageName_no_slash:
  assumes "CHR ''/'' \<notin> set s"
  shows "PackageName s =
           (if CHR ''.'' \<in> set s then takeWhile (\<lambda>x. x \<noteq> CHR ''.'') s else '''')"
proof -
  have l: "LastIndex s ''/'' = -1" using assms by (rule LastIndex_absent)
  show ?thesis
    unfolding PackageName_def l Let_def
    by (simp add: Index_char takeWhile_eq_take[symmetric] del: Index.simps LastIndex.simps)
qed

lemma PackageName_slash:
  assumes "CHR ''/'' \<notin> set b"
  shows "PackageName (a @ CHR ''/'' # b) =
           (if CHR ''.'' \<in> set b then a @ CHR ''/'' # takeWhile (\<lambda>x. x \<noteq> CHR ''.'') b
            else '''')"
proof -
  have l: "LastIndex (a @ CHR ''/'' # b) ''/'' = int (length a)"
    using assms by (rule LastIndex_last)
  have i: "Index (CHR ''/'' # b) ''.'' =
      (if CHR ''.'' \<in> set b then 1 + int (length (takeWhile (\<lambda>x. x \<noteq> CHR ''.'') b)) else -1)"
    unfolding Index_char by simp
  show ?thesis
    unfolding PackageName_def l Let_def
    by (simp add: i takeWhile_eq_take[symmetric] nat_add_distrib
             del: Index.simps LastIndex.simps)
qed

subsection \<open>The loops, one frame at a time\<close>

declare IgnorePackage_loop.simps [simp del] Helper_loop.simps [simp del]
  Caller_loop.simps [simp del]

lemma Caller_loop_Nil: "Caller_loop our c [] = zero_Frame"
  by (simp add: Caller_loop.simps [of our c "[]"] Next_def)

lemma Caller_loop_Cons:
  "Caller_loop our c (f # fs) =
     (if \<not> skipFrame our c f \<or> fs = [] then f else Caller_loop our c fs)"
  by (simp add: Caller_loop.simps [of our c "f # fs"] Next_def)

lemma Caller_loop_find:
  "Caller_loop our c fs =
     (case find (\<lambda>f. \<not> skipFrame our c f) fs of
        Some f \<Rightarrow> f
      | None \<Rightarrow> if fs = [] then zero_Frame else last fs)"
proof (induction fs)
  case Nil
  show ?case by (simp add: Caller_loop_Nil)
next
  case (Cons f fs)
  then show ?case by (simp add: Caller_loop_Cons split: option.splits)
qed

lemma skipFrame_iff:
  "skipFrame our c f \<longleftrightarrow>
     PackageName (Function f) = ''runtime'' \<or> PackageName (Function f) = our \<or>
     PackageName (Function f) \<in> set (ignorePackages c) \<or>
     Function f \<in> set (ignoreFunctions c)"
  by (simp add: skipFrame_def Let_def)

subsection \<open>What getFrames returns\<close>

lemma sint_add_no_wrap:
  fixes a b :: "64 word"
  assumes "0 \<le> sint b" "0 \<le> sint (a + b)"
  shows "sint (a + b) = sint a + sint b"
proof -
  define y where "y = sint a + sint b"
  define t where "t = signed_take_bit 63 y"
  have st: "sint (a + b) = t"
    by (simp add: sint_word_add y_def t_def)
  have lo: "- (2 ^ 63) \<le> y"
    using sint_ge [of a] assms(1) by (simp add: y_def)
  have hi: "y < 2 ^ 64"
    using sint_lt [of a] sint_lt [of b] by (simp add: y_def)
  show ?thesis
  proof (cases "y < 2 ^ 63")
    case True
    with lo have "t = y"
      unfolding t_def by (intro signed_take_bit_int_eq_self) simp_all
    then show ?thesis by (simp add: st y_def)
  next
    case False
    then have "2 ^ 63 \<le> y" by simp
    then have "t \<le> y - 2 ^ Suc 63"
      unfolding t_def by (rule signed_take_bit_int_less_eq)
    then have "t \<le> y - 2 ^ 64" by simp
    with hi have "t < 0" by linarith
    with assms(2) st show ?thesis by simp
  qed
qed

lemma getFrames_Inr_iff:
  "getFrames stk num skip = Inr frames \<longleftrightarrow>
     \<not> make_panics (sint (num + skip)) \<and> 0 \<le> sint skip \<and>
     sint skip + 1 < int (Callers stk (nat (sint (num + skip)))) \<and>
     frames = concat (drop (nat (sint skip)) (take (nat (sint (num + skip))) stk))"
  by (auto simp: getFrames_def Let_def Callers_def CallersFrames_def min_def)

lemma getFrames_4_frames:
  assumes "getFrames stk num 4 = Inr frames"
  shows "frames = concat (drop 4 (take (nat (sint num) + 4) stk))"
proof -
  from assms have np: "\<not> make_panics (sint (num + 4))"
    and n: "5 < int (Callers stk (nat (sint (num + 4))))"
    and fr: "frames = concat (drop 4 (take (nat (sint (num + 4))) stk))"
    by (simp_all add: getFrames_Inr_iff)
  from np have "0 \<le> sint (num + 4)" by (simp add: make_panics_def)
  then have e: "sint (num + 4) = sint num + 4"
    using sint_add_no_wrap [of 4 num] by simp
  from n have "5 < sint (num + 4)" by (simp add: Callers_def) linarith
  with e have "nat (sint (num + 4)) = nat (sint num) + 4" by simp
  with fr show ?thesis by simp
qed

lemma getFrames_log_Caller_stack:
  "getFrames log_Caller_stack (NumberOfFramesToGet log_ACaller) 4 =
     Inr (map frame_named
       [''github.com/gdey/caller/simple/log.Caller'',
        ''github.com/gdey/caller_test.TestCaller_Caller.func1.1'',
        ''testing.tRunner'',
        ''runtime.goexit''])"
  by (simp add: getFrames_def NumberOfFramesToGet_def log_ACaller_def zero_ACaller_def
      DefaultNumberOfFramesToGet_def make_panics_def maxAlloc_def Callers_def
      log_Caller_stack_def stack_of_def CallersFrames_def)

subsection \<open>Caller returns the first frame that is not ignored\<close>

text \<open>
  Claim C1. \<open>skipFrame\<close> holds of a frame exactly when the frame's package is
  \<open>runtime\<close> or the resolver's own package, or is in \<open>ignorePackages\<close>, or the
  frame's function name is in \<open>ignoreFunctions\<close>. \<open>Caller\<close> asks \<open>getFrames\<close> for
  \<open>NumberOfFramesToGet()\<close> frames skipping 4; where that returns a frame sequence, the
  sequence holds the frames of at most \<open>NumberOfFramesToGet()\<close> program counters after
  the first four, and \<open>Caller\<close> returns the first frame of it that \<open>skipFrame\<close> does not
  hold of, or, when it holds of every frame, the last frame of the sequence (the zero
  frame when the sequence has no frame at all).
\<close>

theorem Caller_first_not_ignored:
  "(skipFrame our c f \<longleftrightarrow>
      PackageName (Function f) = ''runtime'' \<or> PackageName (Function f) = our \<or>
      PackageName (Function f) \<in> set (ignorePackages c) \<or>
      Function f \<in> set (ignoreFunctions c))
   \<and> (getFrames stk (NumberOfFramesToGet c) 4 = Inr frames \<longrightarrow>
        frames = concat (drop 4 (take (nat (sint (NumberOfFramesToGet c)) + 4) stk)) \<and>
        Caller our stk c =
          Inr (case find (\<lambda>f. \<not> skipFrame our c f) frames of
                 Some f \<Rightarrow> f
               | None \<Rightarrow> if frames = [] then zero_Frame else last frames))"
  by (simp add: skipFrame_iff getFrames_4_frames Caller_def Caller_loop_find)

text \<open>
  In the test \<open>from_simple_log\<close>, \<open>log.Caller\<close> is ignored and the frame returned is
  the one of the test function.
\<close>

theorem Caller_first_not_ignored_witness:
  "getFrames log_Caller_stack (NumberOfFramesToGet log_ACaller) 4 =
     Inr (map frame_named
       [''github.com/gdey/caller/simple/log.Caller'',
        ''github.com/gdey/caller_test.TestCaller_Caller.func1.1'',
        ''testing.tRunner'',
        ''runtime.goexit''])
   \<and> skipFrame caller_pkg log_ACaller (frame_named ''github.com/gdey/caller/simple/log.Caller'')
   \<and> Caller caller_pkg log_Caller_stack log_ACaller =
       Inr (frame_named ''github.com/gdey/caller_test.TestCaller_Caller.func1.1'')"
proof -
  have s1: "skipFrame caller_pkg log_ACaller
              (frame_named ''github.com/gdey/caller/simple/log.Caller'')"
    by (simp add: skipFrame_def log_ACaller_def frame_named_def)
  have s2: "\<not> skipFrame caller_pkg log_ACaller
              (frame_named ''github.com/gdey/caller_test.TestCaller_Caller.func1.1'')"
    by (simp add: skipFrame_def log_ACaller_def zero_ACaller_def frame_named_def
        caller_pkg_def PackageName_def)
  show ?thesis
    using Caller_first_not_ignored [of caller_pkg log_ACaller
        "frame_named ''github.com/gdey/caller/simple/log.Caller''" log_Caller_stack
        "map frame_named
          [''github.com/gdey/caller/simple/log.Caller'',
           ''github.com/gdey/caller_test.TestCaller_Caller.func1.1'',
           ''testing.tRunner'',
           ''runtime.goexit'']"]
      getFrames_log_Caller_stack s1 s2
    by simp
qed

subsection \<open>PackageName\<close>

text \<open>
  Claim C4. A name with a \<open>/\<close> is \<open>a @ ''/'' @ b\<close> with no \<open>/\<close> in \<open>b\<close>, so that the
  \<open>/\<close> shown is the last one: \<open>PackageName\<close> returns everything before the first
  \<open>.\<close> of \<open>b\<close>, and the empty string when \<open>b\<close> has no \<open>.\<close>. For a name \<open>s\<close> with
  no \<open>/\<close> it returns everything before the first \<open>.\<close> of \<open>s\<close>, and the empty string
  when \<open>s\<close> has no \<open>.\<close>. The four names of the parsing table give the packages the
  table lists.
\<close>

theorem PackageName_before_first_dot:
  "(CHR ''/'' \<notin> set b \<longrightarrow>
      PackageName (a @ CHR ''/'' # b) =
        (if CHR ''.'' \<in> set b then a @ CHR ''/'' # takeWhile (\<lambda>x. x \<noteq> CHR ''.'') b
         else ''''))
   \<and> (CHR ''/'' \<notin> set s \<longrightarrow>
      PackageName s =
        (if CHR ''.'' \<in> set s then takeWhile (\<lambda>x. x \<noteq> CHR ''.'') s else ''''))
   \<and> PackageName ''group/sub.Type.Method'' = ''group/sub''
   \<and> PackageName ''runtime.Caller'' = ''runtime''
   \<and> PackageName ''Caller'' = ''''
   \<and> PackageName ''gdey/caller.Foo'' = ''gdey/caller''"
proof -
  have "PackageName ''group/sub.Type.Method'' = ''group/sub''" by (simp add: PackageName_def)
  moreover have "PackageName ''runtime.Caller'' = ''runtime''" by (simp add: PackageName_def)
  moreover have "PackageName ''Caller'' = ''''" by (simp add: PackageName_def)
  moreover have "PackageName ''gdey/caller.Foo'' = ''gdey/caller''"
    by (simp add: PackageName_def)
  ultimately show ?thesis
    using PackageName_slash [of b a] PackageName_no_slash [of s] by blast
qed

text \<open>The first name of the package's own test table, and a name without \<open>/\<close>.\<close>

theorem PackageName_before_first_dot_witness:
  "CHR ''/'' \<notin> set ''caller_test.TestCaller_Caller.func1.10''
   \<and> PackageName (''github.com/gdey'' @ CHR ''/'' # ''caller_test.TestCaller_Caller.func1.10'') =
       ''github.com/gdey/caller_test''
   \<and> CHR ''/'' \<notin> set ''runtime.Caller''
   \<and> PackageName ''runtime.Caller'' = ''runtime''"
  using PackageName_before_first_dot
    [of "''caller_test.TestCaller_Caller.func1.10''" "''github.com/gdey''" "''runtime.Caller''"]
  by simp

subsection \<open>The frame depth\<close>

text \<open>
  Claim C2, as amended. \<open>SetNumberOfFramesToGet(n)\<close> compares \<open>n\<close> with the constant
  \<open>DefaultNumberOfFramesToGet\<close> (15), not with the depth in force: with \<open>n\<close> at most 15
  it leaves \<open>NumberOfFramesToGet()\<close> unchanged, and with \<open>n\<close> above 15 and below
  \<open>2 ^ 63\<close>, the values an \<open>int\<close> can hold, the depth becomes \<open>n\<close>.
\<close>

theorem SetNumberOfFramesToGet_above_default:
  "(n \<le> DefaultNumberOfFramesToGet \<longrightarrow>
      NumberOfFramesToGet (SetNumberOfFramesToGet c n) = NumberOfFramesToGet c)
   \<and> (DefaultNumberOfFramesToGet < n \<longrightarrow> n < 2 ^ 63 \<longrightarrow>
      NumberOfFramesToGet (SetNumberOfFramesToGet c n) = n \<and>
      sint (NumberOfFramesToGet (SetNumberOfFramesToGet c n)) = uint n)"
proof -
  have "sint n = uint n" if "n < 2 ^ 63"
  proof -
    from that have "uint n < 2 ^ 63" by (simp add: word_less_def)
    moreover have "- (2 ^ 63) \<le> uint n"
    proof -
      have "- (2 ^ 63) \<le> (0::int)" by simp
      also have "0 \<le> uint n" by simp
      finally show ?thesis .
    qed
    ultimately have "signed_take_bit 63 (uint n) = uint n"
      by (intro signed_take_bit_int_eq_self)
    then show ?thesis by (simp add: sint_uint)
  qed
  then show ?thesis
    by (auto simp: SetNumberOfFramesToGet_def NumberOfFramesToGet_def
        DefaultNumberOfFramesToGet_def)
qed

text \<open>On the zero resolver, 20 takes effect and 7 does not.\<close>

theorem SetNumberOfFramesToGet_above_default_witness:
  "(20::64 word) < 2 ^ 63 \<and> DefaultNumberOfFramesToGet < 20
   \<and> NumberOfFramesToGet (SetNumberOfFramesToGet zero_ACaller 20) = 20
   \<and> sint (NumberOfFramesToGet (SetNumberOfFramesToGet zero_ACaller 20)) = 20
   \<and> (7::64 word) \<le> DefaultNumberOfFramesToGet
   \<and> NumberOfFramesToGet (SetNumberOfFramesToGet zero_ACaller 7) = NumberOfFramesToGet zero_ACaller"
  using SetNumberOfFramesToGet_above_default [of 20 zero_ACaller]
    SetNumberOfFramesToGet_above_default [of 7 zero_ACaller]
  by (simp add: DefaultNumberOfFramesToGet_def)

text \<open>
  Claim C2 as stated fails: after \<open>SetNumberOfFramesToGet(20)\<close> the depth is 20, and
  \<open>SetNumberOfFramesToGet(16)\<close>, with 16 below the depth in force, lowers it to 16.
\<close>

theorem SetNumberOfFramesToGet_below_current_depth:
  "(16::64 word) \<le> NumberOfFramesToGet (SetNumberOfFramesToGet zero_ACaller 20)
   \<and> NumberOfFramesToGet (SetNumberOfFramesToGet (SetNumberOfFramesToGet zero_ACaller 20) 16)
       \<noteq> NumberOfFramesToGet (SetNumberOfFramesToGet zero_ACaller 20)
   \<and> sint (NumberOfFramesToGet (SetNumberOfFramesToGet (SetNumberOfFramesToGet zero_ACaller 20) 16))
       < sint (NumberOfFramesToGet (SetNumberOfFramesToGet zero_ACaller 20))"
  by (simp add: SetNumberOfFramesToGet_def NumberOfFramesToGet_def
      DefaultNumberOfFramesToGet_def zero_ACaller_def)

lemma skipFrame_log_Caller:
  "skipFrame caller_pkg log_ACaller (frame_named ''github.com/gdey/caller/simple/log.Caller'')"
  by (simp add: skipFrame_def log_ACaller_def frame_named_def)

lemma skipFrame_test_function:
  "\<not> skipFrame caller_pkg log_ACaller
       (frame_named ''github.com/gdey/caller_test.TestCaller_Caller.func1.1'')"
  by (simp add: skipFrame_def log_ACaller_def zero_ACaller_def frame_named_def
      caller_pkg_def PackageName_def)

lemma Caller_log_Caller_stack:
  "Caller caller_pkg log_Caller_stack log_ACaller =
     Inr (frame_named ''github.com/gdey/caller_test.TestCaller_Caller.func1.1'')"
  by (simp add: Caller_def getFrames_log_Caller_stack Caller_loop_Cons
      skipFrame_log_Caller skipFrame_test_function)

subsection \<open>When getFrames panics\<close>





subsection \<open>When Caller returns\<close>

text \<open>
  Claim C9, as amended. \<open>Caller\<close> returns a frame exactly when \<open>getFrames\<close> does not
  panic, that is when \<open>make\<close> accepts the length \<open>NumberOfFramesToGet() + 4\<close> and
  \<open>runtime.Callers\<close> captures more than five program counters; otherwise it panics. In
  particular it returns a frame on every stack of at least six program counters when the
  depth is between 2 and \<open>2 ^ 45 - 4\<close>.
\<close>

theorem Caller_returns_iff:
  "((\<exists>frame. Caller our stk c = Inr frame) \<longleftrightarrow>
      \<not> make_panics (sint (NumberOfFramesToGet c + 4)) \<and>
      5 < Callers stk (nat (sint (NumberOfFramesToGet c + 4))))
   \<and> (2 \<le> sint (NumberOfFramesToGet c) \<longrightarrow> sint (NumberOfFramesToGet c) \<le> 2 ^ 45 - 4 \<longrightarrow>
        6 \<le> length stk \<longrightarrow> (\<exists>frame. Caller our stk c = Inr frame))"
proof -
  let ?N = "NumberOfFramesToGet c"
  have iff: "(\<exists>frame. Caller our stk c = Inr frame) \<longleftrightarrow>
      \<not> make_panics (sint (?N + 4)) \<and> 5 < Callers stk (nat (sint (?N + 4)))"
  proof -
    have "(\<exists>frame. Caller our stk c = Inr frame) \<longleftrightarrow> (\<exists>frames. getFrames stk ?N 4 = Inr frames)"
      by (auto simp: Caller_def split: sum.splits)
    also have "\<dots> \<longleftrightarrow> \<not> make_panics (sint (?N + 4)) \<and> 5 < Callers stk (nat (sint (?N + 4)))"
      by (auto simp: getFrames_Inr_iff)
    finally show ?thesis .
  qed
  have suff: "\<exists>frame. Caller our stk c = Inr frame"
    if lo: "2 \<le> sint ?N" and hi: "sint ?N \<le> 2 ^ 45 - 4" and len: "6 \<le> length stk"
  proof -
    have "sint (?N + 4) = signed_take_bit 63 (sint ?N + 4)"
      using sint_word_add [of ?N 4] by simp
    also have "\<dots> = sint ?N + 4"
      using lo hi by (intro signed_take_bit_int_eq_self) simp_all
    finally have e: "sint (?N + 4) = sint ?N + 4" .
    have "\<not> make_panics (sint (?N + 4))"
      using lo hi by (simp add: e make_panics_def maxAlloc_def)
    moreover have "5 < Callers stk (nat (sint (?N + 4)))"
      using lo len by (simp add: e Callers_def)
    ultimately show ?thesis by (simp add: iff)
  qed
  from iff suff show ?thesis by blast
qed

theorem Caller_returns_iff_witness:
  "2 \<le> sint (NumberOfFramesToGet log_ACaller)
   \<and> sint (NumberOfFramesToGet log_ACaller) \<le> 2 ^ 45 - 4
   \<and> 6 \<le> length log_Caller_stack
   \<and> (\<exists>frame. Caller caller_pkg log_Caller_stack log_ACaller = Inr frame)"
proof -
  have n: "NumberOfFramesToGet log_ACaller = 15"
    by (simp add: NumberOfFramesToGet_def DefaultNumberOfFramesToGet_def log_ACaller_def
        zero_ACaller_def)
  have l: "length log_Caller_stack = 8"
    by (simp add: log_Caller_stack_def stack_of_def)
  show ?thesis
    using Caller_returns_iff [of caller_pkg log_Caller_stack log_ACaller, THEN conjunct2]
    by (simp add: n l)
qed

text \<open>
  Claim C9 as stated fails: in a goroutine whose function calls \<open>Caller\<close> at once the
  stack has five program counters, and \<open>Caller\<close> panics with \<open>not enough frames\<close>.
\<close>

theorem Caller_panics_on_shallow_stack:
  "Caller caller_pkg goroutine_stack zero_ACaller = Inl NotEnoughFrames"
  by (simp add: Caller_def getFrames_def make_panics_def maxAlloc_def Callers_def
      NumberOfFramesToGet_def DefaultNumberOfFramesToGet_def zero_ACaller_def
      goroutine_stack_def stack_of_def)

subsection \<open>Caller and NumberOfFramesToGet leave the resolver alone\<close>

text \<open>
  Claim C10. After a call of \<open>Caller\<close> or of \<open>NumberOfFramesToGet\<close>, whether it returns
  or panics, the resolver variable holds what it held before: \<open>numFramesToGet\<close>,
  \<open>ignorePackages\<close> and \<open>ignoreFunctions\<close> are unchanged.
\<close>

theorem Caller_NumberOfFramesToGet_read_only:
  "snd (call our stk c M_Caller) = c
   \<and> snd (call our stk c M_NumberOfFramesToGet) = c
   \<and> numFramesToGet (snd (call our stk c M_Caller)) = numFramesToGet c
   \<and> ignorePackages (snd (call our stk c M_Caller)) = ignorePackages c
   \<and> ignoreFunctions (snd (call our stk c M_Caller)) = ignoreFunctions c
   \<and> numFramesToGet (snd (call our stk c M_NumberOfFramesToGet)) = numFramesToGet c
   \<and> ignorePackages (snd (call our stk c M_NumberOfFramesToGet)) = ignorePackages c
   \<and> ignoreFunctions (snd (call our stk c M_NumberOfFramesToGet)) = ignoreFunctions c"
  by (simp split: sum.splits)

theorem Caller_NumberOfFramesToGet_read_only_witness:
  "call caller_pkg log_Caller_stack log_ACaller M_Caller =
     (Inr (R_Frame (frame_named ''github.com/gdey/caller_test.TestCaller_Caller.func1.1'')),
      log_ACaller)
   \<and> call caller_pkg goroutine_stack zero_ACaller M_Caller = (Inl NotEnoughFrames, zero_ACaller)
   \<and> call caller_pkg log_Caller_stack log_ACaller M_NumberOfFramesToGet =
       (Inr (R_int 15), log_ACaller)"
proof -
  have 1: "fst (call caller_pkg log_Caller_stack log_ACaller M_Caller) =
      Inr (R_Frame (frame_named ''github.com/gdey/caller_test.TestCaller_Caller.func1.1''))"
    by (simp add: Caller_log_Caller_stack)
  have 2: "fst (call caller_pkg goroutine_stack zero_ACaller M_Caller) = Inl NotEnoughFrames"
    by (simp add: Caller_def getFrames_def make_panics_def maxAlloc_def Callers_def
        NumberOfFramesToGet_def DefaultNumberOfFramesToGet_def zero_ACaller_def
        goroutine_stack_def stack_of_def)
  have 3: "fst (call caller_pkg log_Caller_stack log_ACaller M_NumberOfFramesToGet) =
      Inr (R_int 15)"
    by (simp add: NumberOfFramesToGet_def DefaultNumberOfFramesToGet_def log_ACaller_def
        zero_ACaller_def)
  show ?thesis
    using 1 2 3
      Caller_NumberOfFramesToGet_read_only [of caller_pkg log_Caller_stack log_ACaller]
      Caller_NumberOfFramesToGet_read_only [of caller_pkg goroutine_stack zero_ACaller]
    by (simp add: prod_eq_iff)
qed

subsection \<open>The loops of the three mutations\<close>

lemma Helper_loop_Nil: "Helper_loop our [] = Inl NoFunctionName"
  by (simp add: Helper_loop.simps [of our "[]"] Next_def zero_Frame_def)

lemma Helper_loop_Cons:
  "Helper_loop our (f # fs) =
     (if Function f = '''' then (if fs = [] then Inl NoFunctionName else Helper_loop our fs)
      else if PackageName (Function f) \<noteq> our \<and> PackageName (Function f) \<noteq> ''runtime''
        then Inr (Some (f, PackageName (Function f)))
      else if fs = [] then Inr None
      else Helper_loop our fs)"
  by (simp add: Helper_loop.simps [of our "f # fs"] Next_def Let_def)

lemma Helper_loop_Some:
  "Helper_loop our fs = Inr (Some (frame, P)) \<Longrightarrow>
     P = PackageName (Function frame) \<and> P \<noteq> our \<and> P \<noteq> ''runtime'' \<and> frame \<in> set fs"
proof (induction fs)
  case Nil
  then show ?case by (simp add: Helper_loop_Nil)
next
  case (Cons f fs)
  then show ?case by (auto simp: Helper_loop_Cons split: if_splits)
qed

lemma IgnorePackage_loop_Nil: "IgnorePackage_loop our [] = PackageName ''''"
  by (simp add: IgnorePackage_loop.simps [of our "[]"] Next_def zero_Frame_def Let_def)

lemma IgnorePackage_loop_Cons:
  "IgnorePackage_loop our (f # fs) =
     (if fs \<noteq> [] \<and> (PackageName (Function f) = '''' \<or> PackageName (Function f) = our)
      then IgnorePackage_loop our fs
      else PackageName (Function f))"
  by (simp add: IgnorePackage_loop.simps [of our "f # fs"] Next_def Let_def)

lemma IgnorePackage_resolved:
  assumes "getFrames stk 5 3 = Inr frames" "IgnorePackage_loop our frames = P"
    "P \<noteq> ''''" "P \<noteq> our" "P \<noteq> ''runtime''"
  shows "IgnorePackage our stk c = Inr (c\<lparr>ignorePackages := ignorePackages c @ [P]\<rparr>)"
  using assms by (simp add: IgnorePackage_def Let_def)

lemma Helper_resolved:
  assumes "getFrames stk 5 3 = Inr frames" "Helper_loop our frames = Inr (Some (frame, P))"
  shows "Helper our stk c =
           (if Function frame \<in> set (ignoreFunctions c) \<or> P \<in> set (ignorePackages c)
            then Inr c
            else Inr (c\<lparr>ignoreFunctions := ignoreFunctions c @ [Function frame]\<rparr>))"
  using assms Helper_loop_Some [OF assms(2)] by (auto simp: Helper_def)

lemma IgnoreFunction_resolved:
  assumes "getFrames stk 5 3 = Inr frames" "Helper_loop our frames = Inr (Some (frame, P))"
  shows "IgnoreFunction our stk c name =
           (if P @ ''.'' @ name \<in> set (ignoreFunctions c) \<or> P \<in> set (ignorePackages c)
            then Inr c
            else Inr (c\<lparr>ignoreFunctions := ignoreFunctions c @ [P @ ''.'' @ name]\<rparr>))"
  using assms Helper_loop_Some [OF assms(2)] by (auto simp: IgnoreFunction_def Let_def)

lemma Helper_cases:
  assumes "Helper our stk c = Inr c1"
  shows "c1 = c \<or>
         (\<exists>frames frame P. getFrames stk 5 3 = Inr frames \<and>
            Helper_loop our frames = Inr (Some (frame, P)) \<and>
            Function frame \<notin> set (ignoreFunctions c) \<and> P \<notin> set (ignorePackages c) \<and>
            c1 = c\<lparr>ignoreFunctions := ignoreFunctions c @ [Function frame]\<rparr>)"
  using assms
  by (auto simp: Helper_def split: sum.splits option.splits if_splits)

lemma IgnoreFunction_cases:
  assumes "IgnoreFunction our stk c name = Inr c1"
  shows "c1 = c \<or>
         (\<exists>frames frame P. getFrames stk 5 3 = Inr frames \<and>
            Helper_loop our frames = Inr (Some (frame, P)) \<and>
            P @ ''.'' @ name \<notin> set (ignoreFunctions c) \<and> P \<notin> set (ignorePackages c) \<and>
            c1 = c\<lparr>ignoreFunctions := ignoreFunctions c @ [P @ ''.'' @ name]\<rparr>)"
  using assms
  by (auto simp: IgnoreFunction_def Let_def split: sum.splits option.splits if_splits)

lemma skipFrame_cong:
  assumes "set (ignorePackages c') = set (ignorePackages c)"
    "set (ignoreFunctions c') = set (ignoreFunctions c)"
  shows "skipFrame our c' f = skipFrame our c f"
  using assms by (simp add: skipFrame_iff)

lemma Caller_loop_cong:
  assumes "set (ignorePackages c') = set (ignorePackages c)"
    "set (ignoreFunctions c') = set (ignoreFunctions c)"
  shows "Caller_loop our c' fs = Caller_loop our c fs"
  by (induction fs) (simp_all add: Caller_loop_Nil Caller_loop_Cons skipFrame_cong [OF assms])

lemma Caller_cong:
  assumes "set (ignorePackages c') = set (ignorePackages c)"
    "set (ignoreFunctions c') = set (ignoreFunctions c)"
    "numFramesToGet c' = numFramesToGet c"
  shows "Caller our stk c' = Caller our stk c"
  using assms(3)
  by (simp add: Caller_def NumberOfFramesToGet_def Caller_loop_cong [OF assms(1,2)]
      split: sum.splits)

subsection \<open>The package of a qualified name\<close>





subsection \<open>The registrations of the package's tests\<close>

lemma getFrames_log_Helper_stack:
  "getFrames log_Helper_stack 5 3 =
     Inr (map frame_named
       [''github.com/gdey/caller/simple/log.Caller'',
        ''github.com/gdey/caller_test.TestCaller_Caller.func1.1'',
        ''testing.tRunner'',
        ''runtime.goexit''])"
  by (simp add: getFrames_def make_panics_def maxAlloc_def Callers_def
      log_Helper_stack_def stack_of_def CallersFrames_def)

lemma PackageName_log_Caller:
  "PackageName ''github.com/gdey/caller/simple/log.Caller'' =
     ''github.com/gdey/caller/simple/log''"
  by (simp add: PackageName_def)

lemma Helper_loop_log_Helper_stack:
  "Helper_loop caller_pkg
     (map frame_named
       [''github.com/gdey/caller/simple/log.Caller'',
        ''github.com/gdey/caller_test.TestCaller_Caller.func1.1'',
        ''testing.tRunner'',
        ''runtime.goexit'']) =
     Inr (Some (frame_named ''github.com/gdey/caller/simple/log.Caller'',
                ''github.com/gdey/caller/simple/log''))"
  by (simp add: Helper_loop_Cons frame_named_def PackageName_log_Caller caller_pkg_def)

lemma getFrames_log_Package_stack:
  "getFrames log_Package_stack 5 3 =
     Inr (map frame_named
       [''github.com/gdey/caller/simple/log.Package'',
        ''github.com/gdey/caller_test.TestCaller_Caller.func1.1'',
        ''testing.tRunner'',
        ''runtime.goexit''])"
  by (simp add: getFrames_def make_panics_def maxAlloc_def Callers_def
      log_Package_stack_def stack_of_def CallersFrames_def)

lemma IgnorePackage_loop_log_Package_stack:
  "IgnorePackage_loop caller_pkg
     (map frame_named
       [''github.com/gdey/caller/simple/log.Package'',
        ''github.com/gdey/caller_test.TestCaller_Caller.func1.1'',
        ''testing.tRunner'',
        ''runtime.goexit'']) =
     ''github.com/gdey/caller/simple/log''"
proof -
  have "PackageName ''github.com/gdey/caller/simple/log.Package'' =
      ''github.com/gdey/caller/simple/log''"
    by (simp add: PackageName_def)
  then show ?thesis
    by (simp add: IgnorePackage_loop_Cons frame_named_def caller_pkg_def)
qed

subsection \<open>IgnorePackage appends without looking\<close>

text \<open>
  Claim C3, as amended. \<open>IgnorePackage\<close> appends the package it resolves, unless that is
  the resolver's own package or \<open>runtime\<close>, without looking for it in
  \<open>ignorePackages\<close>: two calls from the same package \<open>P\<close> leave \<open>P\<close> in the list twice
  more than before. As a set the list is the same after the second call as after the
  first, and so are \<open>skipFrame\<close> and \<open>Caller\<close>.
\<close>

theorem IgnorePackage_appends_each_time:
  "getFrames stk1 5 3 = Inr frames1 \<longrightarrow> IgnorePackage_loop our frames1 = P \<longrightarrow>
   getFrames stk2 5 3 = Inr frames2 \<longrightarrow> IgnorePackage_loop our frames2 = P \<longrightarrow>
   P \<noteq> '''' \<longrightarrow> P \<noteq> our \<longrightarrow> P \<noteq> ''runtime'' \<longrightarrow>
     IgnorePackage our stk1 c = Inr (c\<lparr>ignorePackages := ignorePackages c @ [P]\<rparr>)
   \<and> IgnorePackage our stk2 (c\<lparr>ignorePackages := ignorePackages c @ [P]\<rparr>) =
       Inr (c\<lparr>ignorePackages := ignorePackages c @ [P, P]\<rparr>)
   \<and> count_list (ignorePackages c @ [P, P]) P = count_list (ignorePackages c) P + 2
   \<and> set (ignorePackages c @ [P, P]) = set (ignorePackages c @ [P])
   \<and> skipFrame our (c\<lparr>ignorePackages := ignorePackages c @ [P, P]\<rparr>) f =
       skipFrame our (c\<lparr>ignorePackages := ignorePackages c @ [P]\<rparr>) f
   \<and> Caller our stk (c\<lparr>ignorePackages := ignorePackages c @ [P, P]\<rparr>) =
       Caller our stk (c\<lparr>ignorePackages := ignorePackages c @ [P]\<rparr>)"
proof (intro impI)
  assume a: "getFrames stk1 5 3 = Inr frames1" "IgnorePackage_loop our frames1 = P"
    and b: "getFrames stk2 5 3 = Inr frames2" "IgnorePackage_loop our frames2 = P"
    and p: "P \<noteq> ''''" "P \<noteq> our" "P \<noteq> ''runtime''"
  let ?c1 = "c\<lparr>ignorePackages := ignorePackages c @ [P]\<rparr>"
  let ?c2 = "c\<lparr>ignorePackages := ignorePackages c @ [P, P]\<rparr>"
  have 1: "IgnorePackage our stk1 c = Inr ?c1"
    using a p by (rule IgnorePackage_resolved)
  have 2: "IgnorePackage our stk2 ?c1 = Inr ?c2"
    using IgnorePackage_resolved [OF b p, of ?c1] by simp
  have 3: "count_list (ignorePackages c @ [P, P]) P = count_list (ignorePackages c) P + 2"
    by simp
  have 4: "set (ignorePackages c @ [P, P]) = set (ignorePackages c @ [P])"
    by auto
  have 5: "skipFrame our ?c2 f = skipFrame our ?c1 f"
    by (rule skipFrame_cong) auto
  have 6: "Caller our stk ?c2 = Caller our stk ?c1"
    by (rule Caller_cong) auto
  from 1 2 3 4 5 6 show "IgnorePackage our stk1 c = Inr ?c1
    \<and> IgnorePackage our stk2 ?c1 = Inr ?c2
    \<and> count_list (ignorePackages c @ [P, P]) P = count_list (ignorePackages c) P + 2
    \<and> set (ignorePackages c @ [P, P]) = set (ignorePackages c @ [P])
    \<and> skipFrame our ?c2 f = skipFrame our ?c1 f
    \<and> Caller our stk ?c2 = Caller our stk ?c1"
    by blast
qed

theorem IgnorePackage_appends_each_time_witness:
  "getFrames log_Package_stack 5 3 =
     Inr (map frame_named
       [''github.com/gdey/caller/simple/log.Package'',
        ''github.com/gdey/caller_test.TestCaller_Caller.func1.1'',
        ''testing.tRunner'',
        ''runtime.goexit''])
   \<and> IgnorePackage_loop caller_pkg
       (map frame_named
         [''github.com/gdey/caller/simple/log.Package'',
          ''github.com/gdey/caller_test.TestCaller_Caller.func1.1'',
          ''testing.tRunner'',
          ''runtime.goexit'']) = ''github.com/gdey/caller/simple/log''
   \<and> ''github.com/gdey/caller/simple/log'' \<noteq> caller_pkg
   \<and> IgnorePackage caller_pkg log_Package_stack zero_ACaller =
       Inr (zero_ACaller\<lparr>ignorePackages := [''github.com/gdey/caller/simple/log'']\<rparr>)
   \<and> Caller caller_pkg log_Caller_stack
       (zero_ACaller\<lparr>ignorePackages :=
          [''github.com/gdey/caller/simple/log'', ''github.com/gdey/caller/simple/log'']\<rparr>) =
     Caller caller_pkg log_Caller_stack
       (zero_ACaller\<lparr>ignorePackages := [''github.com/gdey/caller/simple/log'']\<rparr>)"
proof -
  have p: "''github.com/gdey/caller/simple/log'' \<noteq> caller_pkg"
    by (simp add: caller_pkg_def)
  show ?thesis
    using IgnorePackage_appends_each_time [of log_Package_stack _ caller_pkg
        "''github.com/gdey/caller/simple/log''" log_Package_stack _ zero_ACaller _
        log_Caller_stack]
      getFrames_log_Package_stack IgnorePackage_loop_log_Package_stack p
    by (simp add: zero_ACaller_def)
qed

text \<open>
  Claim C3 as stated fails: \<open>IgnorePackage\<close> called twice from \<open>log.Package\<close> leaves the
  package of \<open>log\<close> in \<open>ignorePackages\<close> twice.
\<close>

theorem IgnorePackage_twice_duplicates:
  "IgnorePackage caller_pkg log_Package_stack zero_ACaller =
     Inr (zero_ACaller\<lparr>ignorePackages := [''github.com/gdey/caller/simple/log'']\<rparr>)
   \<and> IgnorePackage caller_pkg log_Package_stack
       (zero_ACaller\<lparr>ignorePackages := [''github.com/gdey/caller/simple/log'']\<rparr>) =
     Inr (zero_ACaller\<lparr>ignorePackages :=
            [''github.com/gdey/caller/simple/log'', ''github.com/gdey/caller/simple/log'']\<rparr>)
   \<and> count_list [''github.com/gdey/caller/simple/log'', ''github.com/gdey/caller/simple/log'']
       ''github.com/gdey/caller/simple/log'' = 2"
proof -
  let ?P = "''github.com/gdey/caller/simple/log''"
  have p: "?P \<noteq> ''''" "?P \<noteq> caller_pkg" "?P \<noteq> ''runtime''"
    by (simp_all add: caller_pkg_def)
  note r = IgnorePackage_resolved
    [OF getFrames_log_Package_stack IgnorePackage_loop_log_Package_stack p]
  have z: "ignorePackages zero_ACaller = []"
    by (simp add: zero_ACaller_def)
  show ?thesis
    using r [of zero_ACaller] r [of "zero_ACaller\<lparr>ignorePackages := [?P]\<rparr>"]
    by (simp add: z)
qed

lemma Helper_log_Helper_stack:
  "Helper caller_pkg log_Helper_stack zero_ACaller = Inr log_ACaller"
  using Helper_resolved [OF getFrames_log_Helper_stack Helper_loop_log_Helper_stack,
      of zero_ACaller]
  by (simp add: zero_ACaller_def log_ACaller_def frame_named_def)

lemma IgnoreFunction_log_Helper_stack:
  "IgnoreFunction caller_pkg log_Helper_stack zero_ACaller ''Caller'' = Inr log_ACaller"
  using IgnoreFunction_resolved [OF getFrames_log_Helper_stack Helper_loop_log_Helper_stack,
      of zero_ACaller "''Caller''"]
  by (simp add: zero_ACaller_def log_ACaller_def)

subsection \<open>Registering a function twice\<close>

text \<open>
  Claim C5. A call of \<open>Helper\<close> or of \<open>IgnoreFunction\<close> that resolves to a function
  already in \<open>ignoreFunctions\<close> returns with the resolver unchanged. So a second
  registration from the same place changes nothing after the first, and neither
  operation ever makes a list without duplicates into one with duplicates.
\<close>

theorem registration_idempotent:
  "(getFrames stk 5 3 = Inr frames \<longrightarrow> Helper_loop our frames = Inr (Some (frame, P)) \<longrightarrow>
      (Function frame \<in> set (ignoreFunctions c) \<longrightarrow> Helper our stk c = Inr c) \<and>
      (P @ ''.'' @ name \<in> set (ignoreFunctions c) \<longrightarrow> IgnoreFunction our stk c name = Inr c))
   \<and> (Helper our stk c = Inr c1 \<longrightarrow>
        Helper our stk c1 = Inr c1 \<and>
        (distinct (ignoreFunctions c) \<longrightarrow> distinct (ignoreFunctions c1)))
   \<and> (IgnoreFunction our stk c name = Inr c2 \<longrightarrow>
        IgnoreFunction our stk c2 name = Inr c2 \<and>
        (distinct (ignoreFunctions c) \<longrightarrow> distinct (ignoreFunctions c2)))"
proof -
  have a: "Helper our stk c = Inr c" "IgnoreFunction our stk c name' = Inr c"
    if "getFrames stk 5 3 = Inr frames" "Helper_loop our frames = Inr (Some (frame, P))"
      "Function frame \<in> set (ignoreFunctions c)" "P @ ''.'' @ name' \<in> set (ignoreFunctions c)"
    for c name'
    using that by (simp_all add: Helper_resolved IgnoreFunction_resolved)
  have h: "Helper our stk c1 = Inr c1 \<and>
      (distinct (ignoreFunctions c) \<longrightarrow> distinct (ignoreFunctions c1))"
    if "Helper our stk c = Inr c1"
    using Helper_cases [OF that]
  proof (elim disjE exE conjE)
    assume "c1 = c"
    with that show ?thesis by simp
  next
    fix frames frame P
    assume "getFrames stk 5 3 = Inr frames" "Helper_loop our frames = Inr (Some (frame, P))"
      "Function frame \<notin> set (ignoreFunctions c)"
      "c1 = c\<lparr>ignoreFunctions := ignoreFunctions c @ [Function frame]\<rparr>"
    then show ?thesis by (simp add: Helper_resolved)
  qed
  have i: "IgnoreFunction our stk c2 name = Inr c2 \<and>
      (distinct (ignoreFunctions c) \<longrightarrow> distinct (ignoreFunctions c2))"
    if "IgnoreFunction our stk c name = Inr c2"
    using IgnoreFunction_cases [OF that]
  proof (elim disjE exE conjE)
    assume "c2 = c"
    with that show ?thesis by simp
  next
    fix frames frame P
    assume "getFrames stk 5 3 = Inr frames" "Helper_loop our frames = Inr (Some (frame, P))"
      "P @ ''.'' @ name \<notin> set (ignoreFunctions c)"
      "c2 = c\<lparr>ignoreFunctions := ignoreFunctions c @ [P @ ''.'' @ name]\<rparr>"
    then show ?thesis by (simp add: IgnoreFunction_resolved)
  qed
  show ?thesis
    using a [of c name] h i by (simp add: Helper_resolved IgnoreFunction_resolved)
qed

theorem registration_idempotent_witness:
  "Helper caller_pkg log_Helper_stack zero_ACaller = Inr log_ACaller
   \<and> Helper caller_pkg log_Helper_stack log_ACaller = Inr log_ACaller
   \<and> IgnoreFunction caller_pkg log_Helper_stack zero_ACaller ''Caller'' = Inr log_ACaller
   \<and> IgnoreFunction caller_pkg log_Helper_stack log_ACaller ''Caller'' = Inr log_ACaller
   \<and> distinct (ignoreFunctions zero_ACaller) \<and> distinct (ignoreFunctions log_ACaller)"
  using registration_idempotent [of log_Helper_stack _ caller_pkg _ _ zero_ACaller
      "''Caller''" log_ACaller log_ACaller]
    Helper_log_Helper_stack IgnoreFunction_log_Helper_stack
  by (simp add: zero_ACaller_def)

subsection \<open>An ignored package covers its functions\<close>



subsection \<open>What the lists never hold\<close>



end
